theory Spec2Isabelle
  imports Complex_Main
begin

section \<open>Numbers\<close>

text \<open>
  The scoring service computes with JavaScript numbers. A finite number is modelled by the
  rational it denotes, and the arithmetic on finite numbers is exact. The three values that
  a division by zero produces are kept apart, since the comparisons of the banding tables
  treat them differently from every finite number.
\<close>

datatype jsnum = Fin rat | PosInf | NegInf | NaN

text \<open>\<open>a / b\<close> for finite \<open>a\<close> and a finite \<open>b\<close> that is never negative zero.\<close>

definition js_div :: "rat \<Rightarrow> rat \<Rightarrow> jsnum" where
  "js_div a b =
     (if b \<noteq> 0 then Fin (a / b)
      else if 0 < a then PosInf
      else if a < 0 then NegInf
      else NaN)"

text \<open>\<open>x * c\<close> for a finite \<open>c\<close>.\<close>

definition js_times :: "jsnum \<Rightarrow> rat \<Rightarrow> jsnum" where
  "js_times x c =
     (case x of
        Fin v \<Rightarrow> Fin (v * c)
      | NaN \<Rightarrow> NaN
      | PosInf \<Rightarrow> (if 0 < c then PosInf else if c < 0 then NegInf else NaN)
      | NegInf \<Rightarrow> (if 0 < c then NegInf else if c < 0 then PosInf else NaN))"

text \<open>\<open>x > t\<close> for a finite \<open>t\<close>: false for NaN.\<close>

definition js_gt :: "jsnum \<Rightarrow> rat \<Rightarrow> bool" where
  "js_gt x t = (case x of Fin v \<Rightarrow> t < v | PosInf \<Rightarrow> True | NegInf \<Rightarrow> False | NaN \<Rightarrow> False)"

text \<open>\<open>Math.round\<close> on a finite number rounds to the nearest integer, a half upwards.\<close>

definition Math_round :: "rat \<Rightarrow> int" where
  "Math_round x = \<lfloor>x + 1 / 2\<rfloor>"

section \<open>Strings\<close>

text \<open>
  Texts are ASCII: the character classes and the case mappings below are those of
  JavaScript on ASCII characters, and leave every other character alone.
\<close>

definition isDigit :: "char \<Rightarrow> bool" where
  "isDigit c = (c \<in> set ''0123456789'')"

definition lowerLetters :: string where
  "lowerLetters = ''abcdefghijklmnopqrstuvwxyz''"

definition upperLetters :: string where
  "upperLetters = ''ABCDEFGHIJKLMNOPQRSTUVWXYZ''"

definition isLetter :: "char \<Rightarrow> bool" where
  "isLetter c = (c \<in> set lowerLetters \<or> c \<in> set upperLetters)"

text \<open>The class \<open>\s\<close>: tab, line feed, vertical tab, form feed, carriage return, space.\<close>

definition isSpace :: "char \<Rightarrow> bool" where
  "isSpace c = ((of_char c :: nat) \<in> {9, 10, 11, 12, 13, 32})"

definition toUpperChar :: "char \<Rightarrow> char" where
  "toUpperChar c = (case map_of (zip lowerLetters upperLetters) c of Some u \<Rightarrow> u | None \<Rightarrow> c)"

definition toLowerChar :: "char \<Rightarrow> char" where
  "toLowerChar c = (case map_of (zip upperLetters lowerLetters) c of Some l \<Rightarrow> l | None \<Rightarrow> c)"

definition toUpperCase :: "string \<Rightarrow> string" where
  "toUpperCase s = map toUpperChar s"

definition toLowerCase :: "string \<Rightarrow> string" where
  "toLowerCase s = map toLowerChar s"

text \<open>\<open>s.startsWith(p)\<close> and \<open>s.includes(p)\<close>.\<close>

fun startsWith :: "string \<Rightarrow> string \<Rightarrow> bool" where
  "startsWith s [] = True"
| "startsWith [] (p # ps) = False"
| "startsWith (c # cs) (p # ps) = (c = p \<and> startsWith cs ps)"

fun includes_str :: "string \<Rightarrow> string \<Rightarrow> bool" where
  "includes_str [] p = (p = [])"
| "includes_str (c # cs) p = (startsWith (c # cs) p \<or> includes_str cs p)"

text \<open>\<open>xs.join(sep)\<close>.\<close>

fun join :: "string \<Rightarrow> string list \<Rightarrow> string" where
  "join sep [] = []"
| "join sep [x] = x"
| "join sep (x # y # ys) = x @ sep @ join sep (y # ys)"

text \<open>\<open>parseInt\<close> on a string of decimal digits.\<close>

definition digitValue :: "char \<Rightarrow> nat" where
  "digitValue c = (of_char c :: nat) - 48"

definition parseInt :: "string \<Rightarrow> nat" where
  "parseInt ds = foldl (\<lambda>n c. 10 * n + digitValue c) 0 ds"

section \<open>Errors\<close>

text \<open>
  \<open>TypeError\<close> is what calling \<open>.match\<close> on a value that is not a string throws;
  \<open>ScoringFailed\<close> is the \<open>Error('Failed to calculate nutrition score')\<close> that
  \<open>calculateScore\<close> throws from its \<open>catch\<close> block.
\<close>

datatype error = TypeError | ScoringFailed

definition bind :: "error + 'a \<Rightarrow> ('a \<Rightarrow> error + 'b) \<Rightarrow> error + 'b" where
  "bind m k = (case m of Inl e \<Rightarrow> Inl e | Inr x \<Rightarrow> k x)"

section \<open>Normalisation to 100 g\<close>

text \<open>
  The field \<open>servingSize\<close> as the code meets it at run time: missing (or any other falsy
  value, the empty string apart), a string, or a truthy value of another type, as an
  unvalidated request body can carry.
\<close>

datatype serving = SizeAbsent | SizeText string | SizeOther

text \<open>
  The regular expression \<open>/(\d+)\s*g/i\<close> tried at the head of the text. The three
  character classes are disjoint, so the greedy match is the only one: the longest run
  of digits, the longest run of white space, then the letter. The result is the
  captured group.
\<close>

definition gramMatchAt :: "string \<Rightarrow> string option" where
  "gramMatchAt s =
     (let ds = takeWhile isDigit s;
          rest = dropWhile isSpace (dropWhile isDigit s)
      in if ds \<noteq> [] \<and> (case rest of [] \<Rightarrow> False | c # _ \<Rightarrow> c = CHR ''g'' \<or> c = CHR ''G'')
         then Some ds else None)"

text \<open>\<open>servingSize.match(/(\d+)\s*g/i)\<close>: the leftmost match.\<close>

fun gramMatch :: "string \<Rightarrow> string option" where
  "gramMatch [] = None"
| "gramMatch (c # cs) =
     (case gramMatchAt (c # cs) of Some ds \<Rightarrow> Some ds | None \<Rightarrow> gramMatch cs)"

definition normalizeToPerPor100g :: "rat \<Rightarrow> serving \<Rightarrow> error + jsnum" where
  "normalizeToPerPor100g v sz =
     (case sz of
        SizeAbsent \<Rightarrow> Inr (Fin v)
      | SizeOther \<Rightarrow> Inl TypeError
      | SizeText s \<Rightarrow>
          if s = [] then Inr (Fin v)
          else (case gramMatch s of
                  Some ds \<Rightarrow> Inr (js_times (js_div v (of_nat (parseInt ds))) 100)
                | None \<Rightarrow> Inr (js_times (js_div v 30) 100)))"

section \<open>Nutrition data\<close>

text \<open>
  The fields of \<open>NutritionData\<close> that the scoring service reads. A nutrient is missing
  or a finite number. The field \<open>ingredients\<close> is read as a string or as an array of
  strings; as with the serving size, a truthy value of another type is possible at run
  time.
\<close>

datatype ingredients = IngAbsent | IngText string | IngList "string list" | IngOther

record nutritionData =
  servingSize :: serving
  calories :: "rat option"
  saturatedFat :: "rat option"
  sugars :: "rat option"
  sodium :: "rat option"
  dietaryFiber :: "rat option"
  protein :: "rat option"
  ingredients :: ingredients

section \<open>Nutritional quality\<close>

text \<open>
  One block of \<open>calculateNutritionalQuality\<close>: \<open>if (nutrition.x) { ... }\<close> runs its
  body when the field is present and not zero, normalises the value and hands it to the
  block's chain of comparisons.
\<close>

definition nutrientBlock ::
  "rat option \<Rightarrow> serving \<Rightarrow> (jsnum \<Rightarrow> int \<Rightarrow> int) \<Rightarrow> int \<Rightarrow> error + int" where
  "nutrientBlock field sz ladder score =
     (case field of
        None \<Rightarrow> Inr score
      | Some v \<Rightarrow>
          if v = 0 then Inr score
          else bind (normalizeToPerPor100g v sz) (\<lambda>x. Inr (ladder x score)))"

definition caloriesLadder :: "jsnum \<Rightarrow> int \<Rightarrow> int" where
  "caloriesLadder x score =
     (if js_gt x 335 then score - 10
      else if js_gt x 270 then score - 8
      else if js_gt x 225 then score - 6
      else if js_gt x 180 then score - 4
      else if js_gt x 135 then score - 2
      else score)"

definition saturatedFatLadder :: "jsnum \<Rightarrow> int \<Rightarrow> int" where
  "saturatedFatLadder x score =
     (if js_gt x 10 then score - 10
      else if js_gt x 8 then score - 8
      else if js_gt x 6 then score - 6
      else if js_gt x 4 then score - 4
      else if js_gt x 2 then score - 2
      else score)"

definition sugarsLadder :: "jsnum \<Rightarrow> int \<Rightarrow> int" where
  "sugarsLadder x score =
     (if js_gt x 45 then score - 10
      else if js_gt x 36 then score - 8
      else if js_gt x 27 then score - 6
      else if js_gt x 18 then score - 4
      else if js_gt x 9 then score - 2
      else score)"

definition sodiumLadder :: "jsnum \<Rightarrow> int \<Rightarrow> int" where
  "sodiumLadder x score =
     (if js_gt x 900 then score - 10
      else if js_gt x 720 then score - 8
      else if js_gt x 540 then score - 6
      else if js_gt x 360 then score - 4
      else if js_gt x 180 then score - 2
      else score)"

definition fiberLadder :: "jsnum \<Rightarrow> int \<Rightarrow> int" where
  "fiberLadder x score =
     (if js_gt x (47 / 10) then score + 5
      else if js_gt x (37 / 10) then score + 4
      else if js_gt x (28 / 10) then score + 3
      else if js_gt x (19 / 10) then score + 2
      else if js_gt x (9 / 10) then score + 1
      else score)"

definition proteinLadder :: "jsnum \<Rightarrow> int \<Rightarrow> int" where
  "proteinLadder x score =
     (if js_gt x 8 then score + 5
      else if js_gt x (64 / 10) then score + 4
      else if js_gt x (48 / 10) then score + 3
      else if js_gt x (32 / 10) then score + 2
      else if js_gt x (16 / 10) then score + 1
      else score)"

definition calculateNutritionalQuality :: "nutritionData \<Rightarrow> error + int" where
  "calculateNutritionalQuality nutrition =
     bind (nutrientBlock (calories nutrition) (servingSize nutrition) caloriesLadder 100) (\<lambda>s1.
     bind (nutrientBlock (saturatedFat nutrition) (servingSize nutrition) saturatedFatLadder s1) (\<lambda>s2.
     bind (nutrientBlock (sugars nutrition) (servingSize nutrition) sugarsLadder s2) (\<lambda>s3.
     bind (nutrientBlock (sodium nutrition) (servingSize nutrition) sodiumLadder s3) (\<lambda>s4.
     bind (nutrientBlock (dietaryFiber nutrition) (servingSize nutrition) fiberLadder s4) (\<lambda>s5.
     bind (nutrientBlock (protein nutrition) (servingSize nutrition) proteinLadder s5) (\<lambda>s6.
     Inr (max 0 (min 100 s6))))))))"

section \<open>The additive table and the extractor\<close>

datatype riskLevel = Green | Yellow | Orange | Red

text \<open>
  A row of the table \<open>additive\<close>, with the columns that the scoring service copies. The
  table is the list of its rows; it is read only, and a query does not fail.
  \<open>findFirst\<close> returns the first row of the list that satisfies the condition.
\<close>

record additive =
  eNumber :: "string option"
  name :: string
  riskLevel :: riskLevel
  description :: string
  pointDeduction :: int

text \<open>
  The regular expression \<open>/E\d{3}[a-z]?/gi\<close> tried at the head of the text: the letter in
  either case, three digits and, when a letter follows, that letter.
\<close>

definition eNumberAt :: "string \<Rightarrow> string option" where
  "eNumberAt s =
     (case s of
        e # d1 # d2 # d3 # rest \<Rightarrow>
          if (e = CHR ''E'' \<or> e = CHR ''e'') \<and> isDigit d1 \<and> isDigit d2 \<and> isDigit d3
          then Some ([e, d1, d2, d3] @
                 (case rest of [] \<Rightarrow> [] | c # _ \<Rightarrow> if isLetter c then [c] else []))
          else None
      | _ \<Rightarrow> None)"

text \<open>
  \<open>ingredientsText.match(eNumberPattern)\<close> with the global flag: all matches from left
  to right, each search starting where the previous match ended. The first argument
  counts the characters of the last match that are still to be skipped.
\<close>

fun eNumberScan :: "nat \<Rightarrow> string \<Rightarrow> string list" where
  "eNumberScan k [] = []"
| "eNumberScan (Suc k) (c # cs) = eNumberScan k cs"
| "eNumberScan 0 (c # cs) =
     (case eNumberAt (c # cs) of
        Some tok \<Rightarrow> tok # eNumberScan (length tok - 1) cs
      | None \<Rightarrow> eNumberScan 0 cs)"

definition eNumberMatches :: "string \<Rightarrow> string list" where
  "eNumberMatches s = eNumberScan 0 s"

text \<open>
  \<open>findFirst({ where: { eNumber: code } })\<close>. The filter without a mode is the
  equality of the database, which for PostgreSQL compares texts character by character,
  the case of letters included.
\<close>

definition findByENumber :: "additive list \<Rightarrow> string \<Rightarrow> additive option" where
  "findByENumber table c = find (\<lambda>a. eNumber a = Some c) table"

text \<open>
  \<open>findFirst({ where: { name: { contains: text, mode: 'insensitive' } } })\<close>: the name
  holds the text somewhere, letters compared without their case.
\<close>

definition findByNameContains :: "additive list \<Rightarrow> string \<Rightarrow> additive option" where
  "findByNameContains table t =
     find (\<lambda>a. includes_str (toLowerCase (name a)) (toLowerCase t)) table"

definition commonAdditives :: "string list" where
  "commonAdditives =
     [''sodium benzoate'', ''potassium sorbate'', ''citric acid'', ''ascorbic acid'',
      ''tocopherols'', ''lecithin'', ''carrageenan'', ''xanthan gum'', ''guar gum'',
      ''sodium nitrite'', ''sodium nitrate'', ''monosodium glutamate'', ''msg'',
      ''high fructose corn syrup'', ''artificial flavor'', ''artificial color'',
      ''red 40'', ''yellow 5'', ''blue 1'', ''caramel color'']"

text \<open>The first loop of \<open>extractAdditives\<close>, one iteration.\<close>

definition eNumberStep :: "additive list \<Rightarrow> additive list \<Rightarrow> string \<Rightarrow> additive list" where
  "eNumberStep table extracted tok =
     (case findByENumber table (toUpperCase tok) of
        Some a \<Rightarrow> extracted @ [a]
      | None \<Rightarrow> extracted)"

text \<open>The second loop, one iteration.\<close>

definition nameStep :: "additive list \<Rightarrow> string \<Rightarrow> additive list \<Rightarrow> string \<Rightarrow> additive list" where
  "nameStep table text extracted additiveName =
     (if includes_str (toLowerCase text) (toLowerCase additiveName)
      then (case findByNameContains table additiveName of
              Some a \<Rightarrow>
                if \<not> list_ex (\<lambda>x. name x = name a) extracted then extracted @ [a]
                else extracted
            | None \<Rightarrow> extracted)
      else extracted)"

definition extractFromText :: "additive list \<Rightarrow> string \<Rightarrow> additive list" where
  "extractFromText table text =
     foldl (nameStep table text)
       (foldl (eNumberStep table) [] (eNumberMatches text))
       commonAdditives"

definition extractAdditives :: "additive list \<Rightarrow> ingredients \<Rightarrow> error + additive list" where
  "extractAdditives table ing =
     (case ing of
        IngList xs \<Rightarrow> Inr (extractFromText table (join '', '' xs))
      | IngText s \<Rightarrow> Inr (extractFromText table s)
      | IngAbsent \<Rightarrow> Inl TypeError
      | IngOther \<Rightarrow> Inl TypeError)"

section \<open>Additives impact and organic bonus\<close>

text \<open>
  \<open>AdditiveInfo\<close>. Its fields carry the prefix \<open>info_\<close> where the row of the table has
  a field of the same name.
\<close>

record additiveInfo =
  code :: string
  info_name :: string
  info_riskLevel :: riskLevel
  info_description :: string
  info_pointDeduction :: int

text \<open>The result of \<open>calculateAdditivesImpact\<close>: \<open>{score, additives}\<close>.\<close>

record additivesData =
  score :: int
  additives :: "additiveInfo list"

text \<open>The object pushed for one extracted additive; \<open>eNumber || name\<close> is its code.\<close>

definition toAdditiveInfo :: "additive \<Rightarrow> additiveInfo" where
  "toAdditiveInfo a =
     \<lparr>code = (case eNumber a of None \<Rightarrow> name a | Some e \<Rightarrow> if e = [] then name a else e),
      info_name = name a,
      info_riskLevel = riskLevel a,
      info_description = description a,
      info_pointDeduction = pointDeduction a\<rparr>"

text \<open>The loop over the extracted additives, one iteration.\<close>

definition impactStep :: "additivesData \<Rightarrow> additive \<Rightarrow> additivesData" where
  "impactStep acc a =
     \<lparr>score = score acc - pointDeduction a, additives = additives acc @ [toAdditiveInfo a]\<rparr>"

definition calculateAdditivesImpact :: "additive list \<Rightarrow> nutritionData \<Rightarrow> error + additivesData" where
  "calculateAdditivesImpact table nutrition =
     (if ingredients nutrition = IngAbsent \<or> ingredients nutrition = IngText []
      then Inr \<lparr>score = 100, additives = []\<rparr>
      else bind (extractAdditives table (ingredients nutrition)) (\<lambda>extracted.
             let acc = foldl impactStep \<lparr>score = 100, additives = []\<rparr> extracted
             in Inr \<lparr>score = max 0 (score acc), additives = additives acc\<rparr>))"

definition calculateOrganicBonus :: "nutritionData \<Rightarrow> int" where
  "calculateOrganicBonus nutrition = 0"

section \<open>The composed score\<close>

datatype scoreCategory = Excellent | Good | Fair | Poor

datatype scoreColor = ColorGreen | ColorLightGreen | ColorOrange | ColorRed

record breakdown =
  nutritionalQuality :: int
  additivesImpact :: int
  organicBonus :: int

text \<open>\<open>NutritionScoring\<close>; its list of additives is the field \<open>scoring_additives\<close>.\<close>

record nutritionScoring =
  finalScore :: int
  category :: scoreCategory
  color :: scoreColor
  breakdown :: breakdown
  scoring_additives :: "additiveInfo list"
  improvements :: "string list"

text \<open>\<open>SCORING_WEIGHTS\<close> and \<open>SCORE_THRESHOLDS\<close> of the shared constants.\<close>

definition WEIGHT_NUTRITIONAL_QUALITY :: rat where
  "WEIGHT_NUTRITIONAL_QUALITY = 6 / 10"

definition WEIGHT_ADDITIVES_IMPACT :: rat where
  "WEIGHT_ADDITIVES_IMPACT = 3 / 10"

definition WEIGHT_ORGANIC_BONUS :: rat where
  "WEIGHT_ORGANIC_BONUS = 1 / 10"

definition THRESHOLD_EXCELLENT :: int where
  "THRESHOLD_EXCELLENT = 80"

definition THRESHOLD_GOOD :: int where
  "THRESHOLD_GOOD = 60"

definition THRESHOLD_FAIR :: int where
  "THRESHOLD_FAIR = 40"

definition getScoreCategory :: "int \<Rightarrow> scoreCategory" where
  "getScoreCategory s =
     (if THRESHOLD_EXCELLENT \<le> s then Excellent
      else if THRESHOLD_GOOD \<le> s then Good
      else if THRESHOLD_FAIR \<le> s then Fair
      else Poor)"

fun getScoreColor :: "scoreCategory \<Rightarrow> scoreColor" where
  "getScoreColor Excellent = ColorGreen"
| "getScoreColor Good = ColorLightGreen"
| "getScoreColor Fair = ColorOrange"
| "getScoreColor Poor = ColorRed"

definition generateImprovements :: "int \<Rightarrow> additivesData \<Rightarrow> int \<Rightarrow> string list" where
  "generateImprovements quality data organic =
     (if quality < 60
      then [''Look for products with lower sugar, sodium, and saturated fat'',
            ''Choose products with higher fiber and protein content'']
      else []) @
     (if score data < 80
      then (let highRiskAdditives =
                  filter (\<lambda>a. info_riskLevel a = Red \<or> info_riskLevel a = Orange) (additives data)
            in if 0 < length highRiskAdditives
               then [''Avoid products with '' @ join '', '' (map info_name highRiskAdditives)]
               else []) @
           [''Choose products with fewer artificial additives and preservatives'']
      else []) @
     (if organic = 0 then [''Consider organic alternatives when available''] else [])"

definition weightedScore :: "int \<Rightarrow> int \<Rightarrow> int \<Rightarrow> int" where
  "weightedScore quality impact organic =
     Math_round (of_int quality * WEIGHT_NUTRITIONAL_QUALITY
                 + of_int impact * WEIGHT_ADDITIVES_IMPACT
                 + of_int organic * WEIGHT_ORGANIC_BONUS)"

text \<open>
  \<open>calculateScore\<close>: whatever is thrown inside the \<open>try\<close> block is replaced by the one
  error of the \<open>catch\<close> block.
\<close>

definition calculateScore :: "additive list \<Rightarrow> nutritionData \<Rightarrow> error + nutritionScoring" where
  "calculateScore table nutritionData =
     (case bind (calculateNutritionalQuality nutritionData) (\<lambda>quality.
           bind (calculateAdditivesImpact table nutritionData) (\<lambda>data.
             let organic = calculateOrganicBonus nutritionData;
                 final = weightedScore quality (score data) organic;
                 cat = getScoreCategory final
             in Inr \<lparr>finalScore = final,
                     category = cat,
                     color = getScoreColor cat,
                     breakdown = \<lparr>nutritionalQuality = quality,
                                  additivesImpact = score data,
                                  organicBonus = organic\<rparr>,
                     scoring_additives = additives data,
                     improvements = generateImprovements quality data organic\<rparr>))
      of Inl e \<Rightarrow> Inl ScoringFailed
       | Inr r \<Rightarrow> Inr r)"

section \<open>Batches\<close>

text \<open>The result that \<open>batchCalculateScores\<close> puts in the place of a rejected promise.\<close>

definition defaultPoorScore :: nutritionScoring where
  "defaultPoorScore =
     \<lparr>finalScore = 0,
      category = Poor,
      color = ColorRed,
      breakdown = \<lparr>nutritionalQuality = 0, additivesImpact = 0, organicBonus = 0\<rparr>,
      scoring_additives = [],
      improvements = [''Unable to calculate nutrition score'']\<rparr>"

text \<open>
  \<open>Promise.allSettled\<close> over the mapped list, then one result for each settled promise,
  in the order of the inputs. The calls share no state, so the order in which they run
  does not show in the results.
\<close>

definition batchCalculateScores :: "additive list \<Rightarrow> nutritionData list \<Rightarrow> nutritionScoring list" where
  "batchCalculateScores table nutritionDataList =
     map (\<lambda>result. case result of Inr v \<Rightarrow> v | Inl reason \<Rightarrow> defaultPoorScore)
       (map (calculateScore table) nutritionDataList)"

section \<open>The seeded table\<close>

text \<open>The rows of \<open>additivesSeedData\<close>, in the order in which the seed inserts them.\<close>

definition additivesSeedData :: "additive list" where
  "additivesSeedData =
     [
      \<lparr>eNumber = Some ''E300'', name = ''Ascorbic acid (Vitamin C)'', riskLevel = Green,
       description = ''Natural antioxidant, vitamin C'', pointDeduction = 0\<rparr>,
      \<lparr>eNumber = Some ''E301'', name = ''Sodium ascorbate'', riskLevel = Green,
       description = ''Sodium salt of vitamin C, antioxidant'', pointDeduction = 0\<rparr>,
      \<lparr>eNumber = Some ''E306'', name = ''Tocopherols (Vitamin E)'', riskLevel = Green,
       description = ''Natural antioxidant, vitamin E'', pointDeduction = 0\<rparr>,
      \<lparr>eNumber = Some ''E330'', name = ''Citric acid'', riskLevel = Green,
       description = ''Natural acid found in citrus fruits'', pointDeduction = 0\<rparr>,
      \<lparr>eNumber = Some ''E440'', name = ''Pectin'', riskLevel = Green,
       description = ''Natural fiber found in fruits'', pointDeduction = 0\<rparr>,
      \<lparr>eNumber = Some ''E415'', name = ''Xanthan gum'', riskLevel = Green,
       description = ''Natural thickener produced by fermentation'', pointDeduction = 0\<rparr>,
      \<lparr>eNumber = Some ''E410'', name = ''Locust bean gum'', riskLevel = Green,
       description = ''Natural thickener from carob seeds'', pointDeduction = 0\<rparr>,
      \<lparr>eNumber = Some ''E322'', name = ''Lecithin'', riskLevel = Yellow,
       description = ''Emulsifier, usually from soy or sunflower'', pointDeduction = 5\<rparr>,
      \<lparr>eNumber = Some ''E202'', name = ''Potassium sorbate'', riskLevel = Yellow,
       description = ''Preservative, antimicrobial agent'', pointDeduction = 5\<rparr>,
      \<lparr>eNumber = Some ''E211'', name = ''Sodium benzoate'', riskLevel = Yellow,
       description = ''Preservative, antimicrobial agent'', pointDeduction = 5\<rparr>,
      \<lparr>eNumber = Some ''E407'', name = ''Carrageenan'', riskLevel = Yellow,
       description = ''Thickener extracted from seaweed'', pointDeduction = 5\<rparr>,
      \<lparr>eNumber = Some ''E412'', name = ''Guar gum'', riskLevel = Yellow,
       description = ''Natural thickener from guar beans'', pointDeduction = 5\<rparr>,
      \<lparr>eNumber = Some ''E414'', name = ''Acacia gum (Gum arabic)'', riskLevel = Yellow,
       description = ''Natural thickener from acacia trees'', pointDeduction = 5\<rparr>,
      \<lparr>eNumber = Some ''E249'', name = ''Potassium nitrite'', riskLevel = Orange,
       description = ''Preservative used in processed meats'', pointDeduction = 10\<rparr>,
      \<lparr>eNumber = Some ''E250'', name = ''Sodium nitrite'', riskLevel = Orange,
       description = ''Preservative used in processed meats'', pointDeduction = 10\<rparr>,
      \<lparr>eNumber = Some ''E621'', name = ''Monosodium glutamate (MSG)'', riskLevel = Orange,
       description = ''Flavor enhancer'', pointDeduction = 10\<rparr>,
      \<lparr>eNumber = Some ''E150d'', name = ''Caramel IV (ammonia sulfite)'', riskLevel = Orange,
       description = ''Artificial coloring agent'', pointDeduction = 10\<rparr>,
      \<lparr>eNumber = Some ''E319'', name = ''TBHQ (tert-Butylhydroquinone)'', riskLevel = Orange,
       description = ''Synthetic antioxidant'', pointDeduction = 10\<rparr>,
      \<lparr>eNumber = Some ''E320'', name = ''BHA (Butylated hydroxyanisole)'', riskLevel = Orange,
       description = ''Synthetic antioxidant'', pointDeduction = 10\<rparr>,
      \<lparr>eNumber = Some ''E321'', name = ''BHT (Butylated hydroxytoluene)'', riskLevel = Orange,
       description = ''Synthetic antioxidant'', pointDeduction = 10\<rparr>,
      \<lparr>eNumber = Some ''E102'', name = ''Tartrazine (Yellow 5)'', riskLevel = Red,
       description = ''Artificial yellow coloring'', pointDeduction = 20\<rparr>,
      \<lparr>eNumber = Some ''E110'', name = ''Sunset Yellow (Yellow 6)'', riskLevel = Red,
       description = ''Artificial orange/yellow coloring'', pointDeduction = 20\<rparr>,
      \<lparr>eNumber = Some ''E129'', name = ''Allura Red (Red 40)'', riskLevel = Red,
       description = ''Artificial red coloring'', pointDeduction = 20\<rparr>,
      \<lparr>eNumber = Some ''E133'', name = ''Brilliant Blue (Blue 1)'', riskLevel = Red,
       description = ''Artificial blue coloring'', pointDeduction = 20\<rparr>,
      \<lparr>eNumber = Some ''E951'', name = ''Aspartame'', riskLevel = Red,
       description = ''Artificial sweetener'', pointDeduction = 20\<rparr>,
      \<lparr>eNumber = Some ''E954'', name = ''Saccharin'', riskLevel = Red,
       description = ''Artificial sweetener'', pointDeduction = 20\<rparr>,
      \<lparr>eNumber = Some ''E952'', name = ''Cyclamate'', riskLevel = Red,
       description = ''Artificial sweetener'', pointDeduction = 20\<rparr>,
      \<lparr>eNumber = None, name = ''High fructose corn syrup'', riskLevel = Red,
       description = ''Processed sweetener from corn'', pointDeduction = 20\<rparr>,
      \<lparr>eNumber = None, name = ''Partially hydrogenated oils'', riskLevel = Red,
       description = ''Trans fats'', pointDeduction = 20\<rparr>,
      \<lparr>eNumber = None, name = ''Artificial flavor'', riskLevel = Orange,
       description = ''Generic artificial flavoring'', pointDeduction = 10\<rparr>,
      \<lparr>eNumber = None, name = ''Natural flavor'', riskLevel = Yellow,
       description = ''Natural flavoring compounds'', pointDeduction = 5\<rparr>,
      \<lparr>eNumber = None, name = ''Sodium phosphates'', riskLevel = Orange,
       description = ''Preservative and emulsifier'', pointDeduction = 10\<rparr>,
      \<lparr>eNumber = Some ''E338'', name = ''Phosphoric acid'', riskLevel = Orange,
       description = ''Acidifier, common in sodas'', pointDeduction = 10\<rparr>,
      \<lparr>eNumber = Some ''E200'', name = ''Sorbic acid'', riskLevel = Yellow,
       description = ''Natural antimicrobial preservative'', pointDeduction = 5\<rparr>,
      \<lparr>eNumber = Some ''E203'', name = ''Calcium sorbate'', riskLevel = Yellow,
       description = ''Calcium salt of sorbic acid'', pointDeduction = 5\<rparr>,
      \<lparr>eNumber = Some ''E210'', name = ''Benzoic acid'', riskLevel = Yellow,
       description = ''Natural preservative'', pointDeduction = 5\<rparr>,
      \<lparr>eNumber = Some ''E100'', name = ''Curcumin'', riskLevel = Green,
       description = ''Natural yellow coloring from turmeric'', pointDeduction = 0\<rparr>,
      \<lparr>eNumber = Some ''E160a'', name = ''Beta-carotene'', riskLevel = Green,
       description = ''Natural orange coloring, vitamin A precursor'', pointDeduction = 0\<rparr>,
      \<lparr>eNumber = Some ''E163'', name = ''Anthocyanins'', riskLevel = Green,
       description = ''Natural purple/red coloring from fruits'', pointDeduction = 0\<rparr>]"

section \<open>The banded reference definition of the nutritional quality\<close>

text \<open>
  The specification's description of the quality score: a table of five tiers for each
  nutrient, each tier a lower bound (exclusive) on the value for 100 g and the points
  that it costs or earns. \<open>bandPoints\<close> are the points of the first tier that the value
  exceeds, and none when it exceeds no tier.
\<close>

definition bandPoints :: "(rat \<times> int) list \<Rightarrow> jsnum \<Rightarrow> int" where
  "bandPoints tiers x = (case find (\<lambda>tier. js_gt x (fst tier)) tiers of None \<Rightarrow> 0 | Some tier \<Rightarrow> snd tier)"

definition caloriesBands :: "(rat \<times> int) list" where
  "caloriesBands = [(335, 10), (270, 8), (225, 6), (180, 4), (135, 2)]"

definition saturatedFatBands :: "(rat \<times> int) list" where
  "saturatedFatBands = [(10, 10), (8, 8), (6, 6), (4, 4), (2, 2)]"

definition sugarsBands :: "(rat \<times> int) list" where
  "sugarsBands = [(45, 10), (36, 8), (27, 6), (18, 4), (9, 2)]"

definition sodiumBands :: "(rat \<times> int) list" where
  "sodiumBands = [(900, 10), (720, 8), (540, 6), (360, 4), (180, 2)]"

definition fiberBands :: "(rat \<times> int) list" where
  "fiberBands = [(47 / 10, 5), (37 / 10, 4), (28 / 10, 3), (19 / 10, 2), (9 / 10, 1)]"

definition proteinBands :: "(rat \<times> int) list" where
  "proteinBands = [(8, 5), (64 / 10, 4), (48 / 10, 3), (32 / 10, 2), (16 / 10, 1)]"

text \<open>
  What one nutrient contributes under the normalisation \<open>per100g\<close>: nothing when it is
  absent, the points of its band otherwise.
\<close>

definition contribution :: "(rat \<Rightarrow> jsnum) \<Rightarrow> (rat \<times> int) list \<Rightarrow> rat option \<Rightarrow> int" where
  "contribution per100g tiers field =
     (case field of None \<Rightarrow> 0 | Some v \<Rightarrow> bandPoints tiers (per100g v))"

definition bandedQuality :: "(rat \<Rightarrow> jsnum) \<Rightarrow> nutritionData \<Rightarrow> int" where
  "bandedQuality per100g nutrition =
     max 0 (min 100
       (100
        - contribution per100g caloriesBands (calories nutrition)
        - contribution per100g saturatedFatBands (saturatedFat nutrition)
        - contribution per100g sugarsBands (sugars nutrition)
        - contribution per100g sodiumBands (sodium nutrition)
        + contribution per100g fiberBands (dietaryFiber nutrition)
        + contribution per100g proteinBands (protein nutrition)))"

section \<open>Example inputs\<close>

text \<open>The scenario of the specification: 1200 mg of sodium in a serving of 50 g.\<close>

definition scenarioFacts :: nutritionData where
  "scenarioFacts =
     \<lparr>servingSize = SizeText ''50g'', calories = None, saturatedFat = None, sugars = None,
      sodium = Some 1200, dietaryFiber = None, protein = None,
      ingredients = IngText ''water, E102, E621, natural flavor''\<rparr>"

text \<open>Nothing is known about the product.\<close>

definition unknownFacts :: nutritionData where
  "unknownFacts =
     \<lparr>servingSize = SizeAbsent, calories = None, saturatedFat = None, sugars = None,
      sodium = None, dietaryFiber = None, protein = None, ingredients = IngAbsent\<rparr>"

text \<open>An apple sauce, with its ingredients as a list.\<close>

definition appleFacts :: nutritionData where
  "appleFacts =
     \<lparr>servingSize = SizeText ''100 g'', calories = Some 52, saturatedFat = None,
      sugars = Some 10, sodium = Some 1, dietaryFiber = Some (24 / 10), protein = None,
      ingredients = IngList [''apple'', ''ascorbic acid'']\<rparr>"

text \<open>A sweet with six colourings and sweeteners of the highest risk.\<close>

definition candyFacts :: nutritionData where
  "candyFacts =
     \<lparr>servingSize = SizeText ''1 bag (30 g)'', calories = Some 200, saturatedFat = Some 5,
      sugars = Some 20, sodium = Some 400, dietaryFiber = None, protein = None,
      ingredients = IngText ''sugar, E102, E110, E129, E133, E951, E954''\<rparr>"

text \<open>A request body whose serving size is a number, not a string.\<close>

definition malformedFacts :: nutritionData where
  "malformedFacts =
     \<lparr>servingSize = SizeOther, calories = Some 100, saturatedFat = None, sugars = None,
      sodium = None, dietaryFiber = None, protein = None, ingredients = IngAbsent\<rparr>"

text \<open>Two rows of the seeded table.\<close>

definition tartrazine :: additive where
  "tartrazine =
     \<lparr>eNumber = Some ''E102'', name = ''Tartrazine (Yellow 5)'', riskLevel = Red,
      description = ''Artificial yellow coloring'', pointDeduction = 20\<rparr>"

definition monosodiumGlutamate :: additive where
  "monosodiumGlutamate =
     \<lparr>eNumber = Some ''E621'', name = ''Monosodium glutamate (MSG)'', riskLevel = Orange,
      description = ''Flavor enhancer'', pointDeduction = 10\<rparr>"

text \<open>The scorings of the example inputs against the seeded table, as the code computes them.\<close>

definition scenarioScoring :: nutritionScoring where
  "scenarioScoring =
     \<lparr>finalScore = 75, category = Good, color = ColorLightGreen,
      breakdown = \<lparr>nutritionalQuality = 90, additivesImpact = 70, organicBonus = 0\<rparr>,
      scoring_additives =
        [\<lparr>code = ''E102'', info_name = ''Tartrazine (Yellow 5)'', info_riskLevel = Red,
          info_description = ''Artificial yellow coloring'', info_pointDeduction = 20\<rparr>,
         \<lparr>code = ''E621'', info_name = ''Monosodium glutamate (MSG)'', info_riskLevel = Orange,
          info_description = ''Flavor enhancer'', info_pointDeduction = 10\<rparr>],
      improvements =
        [''Avoid products with Tartrazine (Yellow 5), Monosodium glutamate (MSG)'',
         ''Choose products with fewer artificial additives and preservatives'',
         ''Consider organic alternatives when available'']\<rparr>"

definition unknownScoring :: nutritionScoring where
  "unknownScoring =
     \<lparr>finalScore = 90, category = Excellent, color = ColorGreen,
      breakdown = \<lparr>nutritionalQuality = 100, additivesImpact = 100, organicBonus = 0\<rparr>,
      scoring_additives = [],
      improvements = [''Consider organic alternatives when available'']\<rparr>"

definition appleScoring :: nutritionScoring where
  "appleScoring =
     \<lparr>finalScore = 90, category = Excellent, color = ColorGreen,
      breakdown = \<lparr>nutritionalQuality = 100, additivesImpact = 100, organicBonus = 0\<rparr>,
      scoring_additives =
        [\<lparr>code = ''E300'', info_name = ''Ascorbic acid (Vitamin C)'', info_riskLevel = Green,
          info_description = ''Natural antioxidant, vitamin C'', info_pointDeduction = 0\<rparr>],
      improvements = [''Consider organic alternatives when available'']\<rparr>"

definition candyScoring :: nutritionScoring where
  "candyScoring =
     \<lparr>finalScore = 36, category = Poor, color = ColorRed,
      breakdown = \<lparr>nutritionalQuality = 60, additivesImpact = 0, organicBonus = 0\<rparr>,
      scoring_additives =
        [\<lparr>code = ''E102'', info_name = ''Tartrazine (Yellow 5)'', info_riskLevel = Red,
          info_description = ''Artificial yellow coloring'', info_pointDeduction = 20\<rparr>,
         \<lparr>code = ''E110'', info_name = ''Sunset Yellow (Yellow 6)'', info_riskLevel = Red,
          info_description = ''Artificial orange/yellow coloring'', info_pointDeduction = 20\<rparr>,
         \<lparr>code = ''E129'', info_name = ''Allura Red (Red 40)'', info_riskLevel = Red,
          info_description = ''Artificial red coloring'', info_pointDeduction = 20\<rparr>,
         \<lparr>code = ''E133'', info_name = ''Brilliant Blue (Blue 1)'', info_riskLevel = Red,
          info_description = ''Artificial blue coloring'', info_pointDeduction = 20\<rparr>,
         \<lparr>code = ''E951'', info_name = ''Aspartame'', info_riskLevel = Red,
          info_description = ''Artificial sweetener'', info_pointDeduction = 20\<rparr>,
         \<lparr>code = ''E954'', info_name = ''Saccharin'', info_riskLevel = Red,
          info_description = ''Artificial sweetener'', info_pointDeduction = 20\<rparr>],
      improvements =
        [''Avoid products with Tartrazine (Yellow 5), Sunset Yellow (Yellow 6), Allura Red (Red 40), Brilliant Blue (Blue 1), Aspartame, Saccharin'',
         ''Choose products with fewer artificial additives and preservatives'',
         ''Consider organic alternatives when available'']\<rparr>"

text \<open>Three more rows of the seeded table, and a batch of five inputs.\<close>

definition citricAcid :: additive where
  "citricAcid =
     \<lparr>eNumber = Some ''E330'', name = ''Citric acid'', riskLevel = Green,
      description = ''Natural acid found in citrus fruits'', pointDeduction = 0\<rparr>"

definition lecithin :: additive where
  "lecithin =
     \<lparr>eNumber = Some ''E322'', name = ''Lecithin'', riskLevel = Yellow,
      description = ''Emulsifier, usually from soy or sunflower'', pointDeduction = 5\<rparr>"

definition caramelIV :: additive where
  "caramelIV =
     \<lparr>eNumber = Some ''E150d'', name = ''Caramel IV (ammonia sulfite)'', riskLevel = Orange,
      description = ''Artificial coloring agent'', pointDeduction = 10\<rparr>"

definition exampleBatch :: "nutritionData list" where
  "exampleBatch = [appleFacts, unknownFacts, malformedFacts, candyFacts, scenarioFacts]"

section \<open>Normalisation: what the code does for each kind of serving size\<close>

lemma gramMatch_50g: "gramMatch ''50g'' = Some ''50''"
  by (simp add: gramMatchAt_def isDigit_def isSpace_def)



lemma parseInt_50: "parseInt ''50'' = 50"
  by (simp add: parseInt_def digitValue_def)










section \<open>The quality score is the banded reference\<close>

lemma normalize_zero:
  "normalizeToPerPor100g 0 sz = Inr x \<Longrightarrow> x = Fin 0 \<or> x = NaN"
  by (auto simp: normalizeToPerPor100g_def js_div_def js_times_def
      split: serving.splits if_splits option.splits)

lemma bandPoints_zero:
  assumes "x = Fin 0 \<or> x = NaN" and "\<forall>tier\<in>set tiers. 0 \<le> fst tier"
  shows "bandPoints tiers x = 0"
proof -
  have "find (\<lambda>tier. js_gt x (fst tier)) tiers = None"
    using assms by (auto simp: find_None_iff js_gt_def)
  then show ?thesis by (simp add: bandPoints_def)
qed

text \<open>
  A block of the code and the contribution of the reference agree, also on a nutrient
  that is present with the value zero: the block skips it, the reference looks it up
  and finds no band.
\<close>

lemma block_contribution:
  assumes norm: "\<forall>v. normalizeToPerPor100g v sz = Inr (N v)"
    and ladder: "\<forall>x s. ladder x s = s + sign * bandPoints tiers x"
    and pos: "\<forall>tier\<in>set tiers. 0 \<le> fst tier"
  shows "nutrientBlock field sz ladder sc = Inr (sc + sign * contribution N tiers field)"
proof (cases field)
  case None
  then show ?thesis by (simp add: nutrientBlock_def contribution_def)
next
  case (Some v)
  show ?thesis
  proof (cases "v = 0")
    case True
    from norm have "normalizeToPerPor100g 0 sz = Inr (N 0)" by blast
    then have "N 0 = Fin 0 \<or> N 0 = NaN" by (rule normalize_zero)
    then have "bandPoints tiers (N 0) = 0" using pos by (rule bandPoints_zero)
    with Some True show ?thesis by (simp add: nutrientBlock_def contribution_def)
  next
    case False
    with Some norm ladder show ?thesis
      by (simp add: nutrientBlock_def contribution_def bind_def)
  qed
qed

lemma caloriesLadder_bands: "caloriesLadder x s = s + (- 1) * bandPoints caloriesBands x"
  by (simp add: caloriesLadder_def bandPoints_def caloriesBands_def)

lemma saturatedFatLadder_bands:
  "saturatedFatLadder x s = s + (- 1) * bandPoints saturatedFatBands x"
  by (simp add: saturatedFatLadder_def bandPoints_def saturatedFatBands_def)

lemma sugarsLadder_bands: "sugarsLadder x s = s + (- 1) * bandPoints sugarsBands x"
  by (simp add: sugarsLadder_def bandPoints_def sugarsBands_def)

lemma sodiumLadder_bands: "sodiumLadder x s = s + (- 1) * bandPoints sodiumBands x"
  by (simp add: sodiumLadder_def bandPoints_def sodiumBands_def)

lemma fiberLadder_bands: "fiberLadder x s = s + 1 * bandPoints fiberBands x"
  by (simp add: fiberLadder_def bandPoints_def fiberBands_def)

lemma proteinLadder_bands: "proteinLadder x s = s + 1 * bandPoints proteinBands x"
  by (simp add: proteinLadder_def bandPoints_def proteinBands_def)

lemma quality_is_banded:
  assumes norm: "\<forall>v. normalizeToPerPor100g v (servingSize nutrition) = Inr (per100g v)"
  shows "calculateNutritionalQuality nutrition = Inr (bandedQuality per100g nutrition)"
proof -
  note b = block_contribution [OF norm]
  have c1: "nutrientBlock (calories nutrition) (servingSize nutrition) caloriesLadder s
      = Inr (s + (- 1) * contribution per100g caloriesBands (calories nutrition))" for s
    by (rule b) (simp_all add: caloriesLadder_bands caloriesBands_def)
  have c2: "nutrientBlock (saturatedFat nutrition) (servingSize nutrition) saturatedFatLadder s
      = Inr (s + (- 1) * contribution per100g saturatedFatBands (saturatedFat nutrition))" for s
    by (rule b) (simp_all add: saturatedFatLadder_bands saturatedFatBands_def)
  have c3: "nutrientBlock (sugars nutrition) (servingSize nutrition) sugarsLadder s
      = Inr (s + (- 1) * contribution per100g sugarsBands (sugars nutrition))" for s
    by (rule b) (simp_all add: sugarsLadder_bands sugarsBands_def)
  have c4: "nutrientBlock (sodium nutrition) (servingSize nutrition) sodiumLadder s
      = Inr (s + (- 1) * contribution per100g sodiumBands (sodium nutrition))" for s
    by (rule b) (simp_all add: sodiumLadder_bands sodiumBands_def)
  have c5: "nutrientBlock (dietaryFiber nutrition) (servingSize nutrition) fiberLadder s
      = Inr (s + 1 * contribution per100g fiberBands (dietaryFiber nutrition))" for s
    by (rule b) (simp_all add: fiberLadder_bands fiberBands_def)
  have c6: "nutrientBlock (protein nutrition) (servingSize nutrition) proteinLadder s
      = Inr (s + 1 * contribution per100g proteinBands (protein nutrition))" for s
    by (rule b) (simp_all add: proteinLadder_bands proteinBands_def)
  show ?thesis
    by (simp add: calculateNutritionalQuality_def bandedQuality_def bind_def c1 c2 c3 c4 c5 c6)
qed









section \<open>Additives impact\<close>

lemma foldl_impactStep:
  "foldl impactStep acc ex =
     \<lparr>score = score acc - sum_list (map pointDeduction ex),
      additives = additives acc @ map toAdditiveInfo ex\<rparr>"
  by (induction ex arbitrary: acc) (simp_all add: impactStep_def)

lemma extractFromText_empty: "extractFromText table [] = []"
  by (simp add: extractFromText_def eNumberMatches_def commonAdditives_def nameStep_def
      toLowerCase_def)

lemma sum_list_nonneg_deductions:
  "\<forall>a\<in>set ex. 0 \<le> pointDeduction a \<Longrightarrow> 0 \<le> sum_list (map pointDeduction ex)"
  by (induction ex) simp_all

lemma impact_value:
  assumes "ingredients n \<noteq> IngAbsent" and "extractAdditives table (ingredients n) = Inr ex"
  shows "calculateAdditivesImpact table n
         = Inr \<lparr>score = max 0 (100 - sum_list (map pointDeduction ex)),
                 additives = map toAdditiveInfo ex\<rparr>"
proof (cases "ingredients n = IngText []")
  case True
  with assms(2) have "ex = []"
    by (simp add: extractAdditives_def extractFromText_empty)
  with True show ?thesis by (simp add: calculateAdditivesImpact_def)
next
  case False
  with assms show ?thesis
    by (simp add: calculateAdditivesImpact_def bind_def foldl_impactStep)
qed


lemma scenario_extracted:
  "extractAdditives additivesSeedData (ingredients scenarioFacts)
   = Inr [tartrazine, monosodiumGlutamate]"
  by code_simp



section \<open>The composed score\<close>

lemma findByENumber_in_table: "findByENumber table c = Some a \<Longrightarrow> a \<in> set table"
  by (auto simp: findByENumber_def find_Some_iff)

lemma findByNameContains_in_table: "findByNameContains table t = Some a \<Longrightarrow> a \<in> set table"
  by (auto simp: findByNameContains_def find_Some_iff)

lemma eNumberStep_subset:
  "set extracted \<subseteq> set table \<Longrightarrow> set (eNumberStep table extracted tok) \<subseteq> set table"
  by (auto simp: eNumberStep_def split: option.splits dest: findByENumber_in_table)

lemma nameStep_subset:
  "set extracted \<subseteq> set table \<Longrightarrow> set (nameStep table txt extracted nm) \<subseteq> set table"
  by (auto simp: nameStep_def split: option.splits dest: findByNameContains_in_table)

lemma foldl_eNumberStep_subset:
  "set extracted \<subseteq> set table \<Longrightarrow> set (foldl (eNumberStep table) extracted toks) \<subseteq> set table"
  by (induction toks arbitrary: extracted) (simp_all add: eNumberStep_subset)

lemma foldl_nameStep_subset:
  "set extracted \<subseteq> set table \<Longrightarrow> set (foldl (nameStep table txt) extracted names) \<subseteq> set table"
  by (induction names arbitrary: extracted) (simp_all add: nameStep_subset)

text \<open>Every extracted additive is a row of the table.\<close>

lemma extractFromText_subset: "set (extractFromText table txt) \<subseteq> set table"
  unfolding extractFromText_def
  by (rule foldl_nameStep_subset) (rule foldl_eNumberStep_subset, simp)

lemma extractAdditives_subset:
  "extractAdditives table ing = Inr ex \<Longrightarrow> set ex \<subseteq> set table"
  using extractFromText_subset
  by (auto simp: extractAdditives_def split: ingredients.splits)

lemma impact_Inr_cases:
  assumes "calculateAdditivesImpact table n = Inr d"
  shows "d = \<lparr>score = 100, additives = []\<rparr>
         \<or> (\<exists>ex. extractAdditives table (ingredients n) = Inr ex
               \<and> d = \<lparr>score = max 0 (100 - sum_list (map pointDeduction ex)),
                        additives = map toAdditiveInfo ex\<rparr>)"
  using assms
  by (auto simp: calculateAdditivesImpact_def bind_def foldl_impactStep
      split: if_splits sum.splits)

lemma impact_bounds:
  assumes tab: "\<forall>a\<in>set table. 0 \<le> pointDeduction a"
    and res: "calculateAdditivesImpact table n = Inr d"
  shows "0 \<le> score d \<and> score d \<le> 100"
proof -
  from impact_Inr_cases [OF res] show ?thesis
  proof
    assume "d = \<lparr>score = 100, additives = []\<rparr>"
    then show ?thesis by simp
  next
    assume "\<exists>ex. extractAdditives table (ingredients n) = Inr ex
               \<and> d = \<lparr>score = max 0 (100 - sum_list (map pointDeduction ex)),
                        additives = map toAdditiveInfo ex\<rparr>"
    then obtain ex where ex: "extractAdditives table (ingredients n) = Inr ex"
      and d: "d = \<lparr>score = max 0 (100 - sum_list (map pointDeduction ex)),
                        additives = map toAdditiveInfo ex\<rparr>" by blast
    from extractAdditives_subset [OF ex] tab have "\<forall>a\<in>set ex. 0 \<le> pointDeduction a" by blast
    then have "0 \<le> sum_list (map pointDeduction ex)" by (rule sum_list_nonneg_deductions)
    with d show ?thesis by simp
  qed
qed

lemma quality_bounds:
  "calculateNutritionalQuality n = Inr q \<Longrightarrow> 0 \<le> q \<and> q \<le> 100"
  by (auto simp: calculateNutritionalQuality_def bind_def split: sum.splits)


lemma weightedScore_bounds:
  assumes "0 \<le> q" "q \<le> 100" "0 \<le> a" "a \<le> 100"
  shows "0 \<le> weightedScore q a 0 \<and> weightedScore q a 0 \<le> 90"
proof -
  let ?x = "rat_of_int q * (6 / 10) + rat_of_int a * (3 / 10) + rat_of_int 0 * (1 / 10) + 1 / 2"
  have q: "0 \<le> rat_of_int q" "rat_of_int q \<le> 100" using assms by simp_all
  have a: "0 \<le> rat_of_int a" "rat_of_int a \<le> 100" using assms by simp_all
  have "0 \<le> ?x" using q a by simp
  then have lo: "0 \<le> \<lfloor>?x\<rfloor>" by simp
  have "?x < 91" using q a by simp
  then have "\<lfloor>?x\<rfloor> < 91" by (simp add: floor_less_iff)
  with lo show ?thesis
    by (simp add: weightedScore_def Math_round_def WEIGHT_NUTRITIONAL_QUALITY_def
        WEIGHT_ADDITIVES_IMPACT_def WEIGHT_ORGANIC_BONUS_def)
qed

text \<open>What a successful call of \<open>calculateScore\<close> has computed.\<close>

lemma calculateScore_Inr:
  assumes "calculateScore table n = Inr r"
  shows "\<exists>q d. calculateNutritionalQuality n = Inr q
           \<and> calculateAdditivesImpact table n = Inr d
           \<and> r = \<lparr>finalScore = weightedScore q (score d) (calculateOrganicBonus n),
                   category = getScoreCategory (weightedScore q (score d) (calculateOrganicBonus n)),
                   color = getScoreColor
                     (getScoreCategory (weightedScore q (score d) (calculateOrganicBonus n))),
                   breakdown = \<lparr>nutritionalQuality = q, additivesImpact = score d,
                                organicBonus = calculateOrganicBonus n\<rparr>,
                   scoring_additives = additives d,
                   improvements = generateImprovements q d (calculateOrganicBonus n)\<rparr>"
  using assms
  by (auto simp: calculateScore_def bind_def Let_def split: sum.splits)







lemma apple_scoring: "calculateScore additivesSeedData appleFacts = Inr appleScoring"
  by code_simp


lemma seed_deductions_nonneg: "list_all (\<lambda>a. 0 \<le> pointDeduction a) additivesSeedData"
  by (simp add: additivesSeedData_def)

text \<open>
  Claim C2. When no row of the table has a negative deduction and \<open>calculateScore\<close>
  succeeds, the final score and the three sub-scores of the breakdown are between 0
  and 100.
\<close>

theorem calculateScore_clamped:
  assumes "\<forall>a\<in>set table. 0 \<le> pointDeduction a"
    and "calculateScore table n = Inr r"
  shows "0 \<le> finalScore r \<and> finalScore r \<le> 100
    \<and> 0 \<le> nutritionalQuality (breakdown r) \<and> nutritionalQuality (breakdown r) \<le> 100
    \<and> 0 \<le> additivesImpact (breakdown r) \<and> additivesImpact (breakdown r) \<le> 100
    \<and> 0 \<le> organicBonus (breakdown r) \<and> organicBonus (breakdown r) \<le> 100"
proof -
  from calculateScore_Inr [OF assms(2)] obtain q d where
    q: "calculateNutritionalQuality n = Inr q" and
    d: "calculateAdditivesImpact table n = Inr d" and
    fin: "finalScore r = weightedScore q (score d) (calculateOrganicBonus n)" and
    bq: "nutritionalQuality (breakdown r) = q" and
    ba: "additivesImpact (breakdown r) = score d" and
    bo: "organicBonus (breakdown r) = calculateOrganicBonus n"
    by auto
  from quality_bounds [OF q] have qb: "0 \<le> q" "q \<le> 100" by simp_all
  from impact_bounds [OF assms(1) d] have db: "0 \<le> score d" "score d \<le> 100" by simp_all
  from weightedScore_bounds [OF qb db]
  have "0 \<le> finalScore r \<and> finalScore r \<le> 90"
    by (simp add: fin calculateOrganicBonus_def)
  with qb db show ?thesis
    by (simp add: bq ba bo calculateOrganicBonus_def)
qed

lemma candy_scoring: "calculateScore additivesSeedData candyFacts = Inr candyScoring"
  by code_simp

theorem calculateScore_clamped_witness:
  "list_all (\<lambda>a. 0 \<le> pointDeduction a) additivesSeedData
   \<and> calculateScore additivesSeedData candyFacts = Inr candyScoring
   \<and> finalScore candyScoring = 36
   \<and> 0 \<le> finalScore candyScoring \<and> finalScore candyScoring \<le> 100
   \<and> 0 \<le> nutritionalQuality (breakdown candyScoring)
   \<and> nutritionalQuality (breakdown candyScoring) \<le> 100
   \<and> additivesImpact (breakdown candyScoring) = 0
   \<and> 0 \<le> additivesImpact (breakdown candyScoring)
   \<and> additivesImpact (breakdown candyScoring) \<le> 100
   \<and> 0 \<le> organicBonus (breakdown candyScoring) \<and> organicBonus (breakdown candyScoring) \<le> 100"
proof -
  have tab: "\<forall>a\<in>set additivesSeedData. 0 \<le> pointDeduction a"
    using seed_deductions_nonneg by (simp only: list_all_iff)
  from calculateScore_clamped [OF tab candy_scoring] seed_deductions_nonneg candy_scoring
  show ?thesis by (simp add: candyScoring_def)
qed

lemma weightedScore_top: "weightedScore 100 100 0 = 90"
  by code_simp

text \<open>
  Claim C10. The organic bonus is 0 on every input, so it is 0 in every breakdown; and
  when no row of the table has a negative deduction, the final score is at most 90,
  which is the weighted score of the sub-scores 100, 100 and 0.
\<close>

theorem organicBonus_zero_caps_score:
  "calculateOrganicBonus n = 0
   \<and> (calculateScore table n = Inr r \<longrightarrow> organicBonus (breakdown r) = 0)
   \<and> ((\<forall>a\<in>set table. 0 \<le> pointDeduction a) \<and> calculateScore table n = Inr r \<longrightarrow>
        finalScore r \<le> 90)
   \<and> weightedScore 100 100 0 = 90"
proof (intro conjI impI)
  show "calculateOrganicBonus n = 0" by (simp add: calculateOrganicBonus_def)
next
  assume "calculateScore table n = Inr r"
  from calculateScore_Inr [OF this] show "organicBonus (breakdown r) = 0"
    by (auto simp: calculateOrganicBonus_def)
next
  assume h: "(\<forall>a\<in>set table. 0 \<le> pointDeduction a) \<and> calculateScore table n = Inr r"
  then have tab: "\<forall>a\<in>set table. 0 \<le> pointDeduction a" and res: "calculateScore table n = Inr r"
    by simp_all
  from calculateScore_Inr [OF res] obtain q d where
    q: "calculateNutritionalQuality n = Inr q" and
    d: "calculateAdditivesImpact table n = Inr d" and
    fin: "finalScore r = weightedScore q (score d) (calculateOrganicBonus n)"
    by auto
  from quality_bounds [OF q] have qb: "0 \<le> q" "q \<le> 100" by simp_all
  from impact_bounds [OF tab d] have db: "0 \<le> score d" "score d \<le> 100" by simp_all
  from weightedScore_bounds [OF qb db] show "finalScore r \<le> 90"
    by (simp add: fin calculateOrganicBonus_def)
next
  show "weightedScore 100 100 0 = 90" by (rule weightedScore_top)
qed

lemma unknown_scoring: "calculateScore additivesSeedData unknownFacts = Inr unknownScoring"
  by code_simp

theorem organicBonus_zero_caps_score_witness:
  "list_all (\<lambda>a. 0 \<le> pointDeduction a) additivesSeedData
   \<and> calculateScore additivesSeedData unknownFacts = Inr unknownScoring
   \<and> calculateOrganicBonus unknownFacts = 0
   \<and> organicBonus (breakdown unknownScoring) = 0
   \<and> finalScore unknownScoring = 90
   \<and> finalScore unknownScoring \<le> 90"
proof -
  have tab: "\<forall>a\<in>set additivesSeedData. 0 \<le> pointDeduction a"
    using seed_deductions_nonneg by (simp only: list_all_iff)
  from organicBonus_zero_caps_score [of unknownFacts additivesSeedData unknownScoring]
    tab unknown_scoring seed_deductions_nonneg
  show ?thesis by (simp add: unknownScoring_def)
qed


section \<open>Batches\<close>

text \<open>
  \<open>calculateScore\<close> succeeds on every input whose serving size and ingredients have
  the types that \<open>NutritionData\<close> declares.
\<close>

lemma normalize_total:
  "sz \<noteq> SizeOther \<Longrightarrow> \<exists>N. \<forall>v. normalizeToPerPor100g v sz = Inr (N v)"
proof (cases sz)
  case SizeAbsent
  then have "\<forall>v. normalizeToPerPor100g v sz = Inr (Fin v)"
    by (simp add: normalizeToPerPor100g_def)
  then show ?thesis by (rule exI [of _ Fin])
next
  case (SizeText s)
  let ?N = "\<lambda>v. if s = [] then Fin v
                else (case gramMatch s of
                        Some ds \<Rightarrow> js_times (js_div v (of_nat (parseInt ds))) 100
                      | None \<Rightarrow> js_times (js_div v 30) 100)"
  from SizeText have "\<forall>v. normalizeToPerPor100g v sz = Inr (?N v)"
    by (simp add: normalizeToPerPor100g_def split: option.splits)
  then show ?thesis by (rule exI [of _ ?N])
next
  case SizeOther
  assume "sz \<noteq> SizeOther"
  with SizeOther show ?thesis by simp
qed

lemma impact_total:
  "ingredients n \<noteq> IngOther \<Longrightarrow> \<exists>d. calculateAdditivesImpact table n = Inr d"
  by (cases "ingredients n")
    (simp_all add: calculateAdditivesImpact_def extractAdditives_def bind_def Let_def)

lemma calculateScore_succeeds:
  assumes "servingSize n \<noteq> SizeOther" and "ingredients n \<noteq> IngOther"
  shows "\<exists>r. calculateScore table n = Inr r"
proof -
  from normalize_total [OF assms(1)] obtain N where
    "\<forall>v. normalizeToPerPor100g v (servingSize n) = Inr (N v)" by blast
  then have q: "calculateNutritionalQuality n = Inr (bandedQuality N n)"
    by (rule quality_is_banded)
  from impact_total [OF assms(2)] obtain d where
    d: "calculateAdditivesImpact table n = Inr d" by blast
  from q d show ?thesis
    by (simp add: calculateScore_def bind_def Let_def)
qed

lemma malformed_fails: "calculateScore additivesSeedData malformedFacts = Inl ScoringFailed"
  by (simp add: calculateScore_def calculateNutritionalQuality_def nutrientBlock_def
      normalizeToPerPor100g_def bind_def malformedFacts_def)

lemma scenario_scoring: "calculateScore additivesSeedData scenarioFacts = Inr scenarioScoring"
  by code_simp

text \<open>
  Claim C8. The batch returns one result for each input, in the order of the inputs:
  the scoring of the input where \<open>calculateScore\<close> succeeds, and where it fails the
  fixed result with the score 0, the category poor, the colour red, a breakdown of
  zeros, no additives and the one improvement ``Unable to calculate nutrition score''.
  The batch itself has no failure: it is a list for every list of inputs.
\<close>

theorem batchCalculateScores_isolation:
  "length (batchCalculateScores table ns) = length ns
   \<and> (\<forall>i<length ns.
        (\<forall>r. calculateScore table (ns ! i) = Inr r \<longrightarrow>
               batchCalculateScores table ns ! i = r)
        \<and> (\<forall>e. calculateScore table (ns ! i) = Inl e \<longrightarrow>
               batchCalculateScores table ns ! i
               = \<lparr>finalScore = 0, category = Poor, color = ColorRed,
                  breakdown = \<lparr>nutritionalQuality = 0, additivesImpact = 0, organicBonus = 0\<rparr>,
                  scoring_additives = [],
                  improvements = [''Unable to calculate nutrition score'']\<rparr>))"
proof (intro conjI allI impI)
  show "length (batchCalculateScores table ns) = length ns"
    by (simp add: batchCalculateScores_def)
next
  fix i r
  assume "i < length ns" and "calculateScore table (ns ! i) = Inr r"
  then show "batchCalculateScores table ns ! i = r"
    by (simp add: batchCalculateScores_def)
next
  fix i e
  assume "i < length ns" and "calculateScore table (ns ! i) = Inl e"
  then have "batchCalculateScores table ns ! i = defaultPoorScore"
    by (simp add: batchCalculateScores_def)
  then show "batchCalculateScores table ns ! i
               = \<lparr>finalScore = 0, category = Poor, color = ColorRed,
                  breakdown = \<lparr>nutritionalQuality = 0, additivesImpact = 0, organicBonus = 0\<rparr>,
                  scoring_additives = [],
                  improvements = [''Unable to calculate nutrition score'']\<rparr>"
    by (simp only: defaultPoorScore_def)
qed

theorem batchCalculateScores_isolation_witness:
  "length exampleBatch = 5
   \<and> length (batchCalculateScores additivesSeedData exampleBatch) = 5
   \<and> calculateScore additivesSeedData (exampleBatch ! 2) = Inl ScoringFailed
   \<and> batchCalculateScores additivesSeedData exampleBatch ! 2
       = \<lparr>finalScore = 0, category = Poor, color = ColorRed,
          breakdown = \<lparr>nutritionalQuality = 0, additivesImpact = 0, organicBonus = 0\<rparr>,
          scoring_additives = [],
          improvements = [''Unable to calculate nutrition score'']\<rparr>
   \<and> batchCalculateScores additivesSeedData exampleBatch ! 0 = appleScoring
   \<and> batchCalculateScores additivesSeedData exampleBatch ! 1 = unknownScoring
   \<and> batchCalculateScores additivesSeedData exampleBatch ! 3 = candyScoring
   \<and> batchCalculateScores additivesSeedData exampleBatch ! 4 = scenarioScoring"
proof -
  note b = batchCalculateScores_isolation [of additivesSeedData exampleBatch]
  have len: "length exampleBatch = 5" by (simp add: exampleBatch_def)
  have at: "exampleBatch ! 0 = appleFacts" "exampleBatch ! 1 = unknownFacts"
    "exampleBatch ! 2 = malformedFacts" "exampleBatch ! 3 = candyFacts"
    "exampleBatch ! 4 = scenarioFacts"
    by (simp_all add: exampleBatch_def)
  from b have l: "length (batchCalculateScores additivesSeedData exampleBatch) = 5"
    by (simp only: len)
  from b len have slot: "\<And>i. i < 5 \<Longrightarrow>
      (\<forall>r. calculateScore additivesSeedData (exampleBatch ! i) = Inr r \<longrightarrow>
           batchCalculateScores additivesSeedData exampleBatch ! i = r)
      \<and> (\<forall>e. calculateScore additivesSeedData (exampleBatch ! i) = Inl e \<longrightarrow>
           batchCalculateScores additivesSeedData exampleBatch ! i
           = \<lparr>finalScore = 0, category = Poor, color = ColorRed,
              breakdown = \<lparr>nutritionalQuality = 0, additivesImpact = 0, organicBonus = 0\<rparr>,
              scoring_additives = [],
              improvements = [''Unable to calculate nutrition score'']\<rparr>)"
    by simp
  have 0: "batchCalculateScores additivesSeedData exampleBatch ! 0 = appleScoring"
    using slot [of 0, unfolded at] apple_scoring by simp
  have 1: "batchCalculateScores additivesSeedData exampleBatch ! 1 = unknownScoring"
    using slot [of 1, unfolded at] unknown_scoring by simp
  have 2: "batchCalculateScores additivesSeedData exampleBatch ! 2
       = \<lparr>finalScore = 0, category = Poor, color = ColorRed,
          breakdown = \<lparr>nutritionalQuality = 0, additivesImpact = 0, organicBonus = 0\<rparr>,
          scoring_additives = [],
          improvements = [''Unable to calculate nutrition score'']\<rparr>"
    using slot [of 2, unfolded at] malformed_fails by simp
  have 3: "batchCalculateScores additivesSeedData exampleBatch ! 3 = candyScoring"
    using slot [of 3, unfolded at] candy_scoring by simp
  have 4: "batchCalculateScores additivesSeedData exampleBatch ! 4 = scenarioScoring"
    using slot [of 4, unfolded at] scenario_scoring by simp
  from len l 0 1 2 3 4 malformed_fails [folded at(3)] show ?thesis by simp
qed


section \<open>The extractor on the seeded table\<close>

lemma repeated_E102:
  "extractAdditives additivesSeedData (IngText ''E102, sugar, E102'')
   = Inr [tartrazine, tartrazine]"
  by code_simp

lemma E330_and_citric_acid:
  "extractAdditives additivesSeedData (IngText ''E330, citric acid'') = Inr [citricAcid]"
  by code_simp

text \<open>
  Claim C6, at an input where the code departs from it. The E-number E102 written
  twice is extracted twice: the first loop appends every match that the table knows
  and has no test for an additive that is already extracted. The second loop has the
  test, and E330 followed by its name is extracted once.
\<close>

theorem extractAdditives_repeated_eNumber:
  "extractAdditives additivesSeedData (IngText ''E102, sugar, E102'')
     = Inr [tartrazine, tartrazine]
   \<and> extractAdditives additivesSeedData (IngText ''E330, citric acid'') = Inr [citricAcid]"
  using repeated_E102 E330_and_citric_acid by (rule conjI)

lemma matches_E150d: "eNumberMatches ''water, sugar, E150d'' = [''E150d'']"
  by code_simp

lemma upper_E150d: "toUpperCase ''E150d'' = ''E150D''"
  by code_simp

lemma seed_has_no_E150D: "findByENumber additivesSeedData ''E150D'' = None"
  by code_simp

lemma seed_has_E150d: "findByENumber additivesSeedData ''E150d'' = Some caramelIV"
  by code_simp

lemma extract_E150d:
  "extractAdditives additivesSeedData (IngText ''water, sugar, E150d'') = Inr []"
  by code_simp

lemma extract_e322: "extractAdditives additivesSeedData (IngText ''e322'') = Inr [lecithin]"
  by code_simp

text \<open>
  Claim C7, at an input where the code departs from it. The pattern finds the token
  E150d, and finds e322 whatever the case of its first letter; but the token is put in
  upper case as a whole, and the table is searched for a code equal to E150D. The
  seeded row has the code E150d, so the additive is not extracted.
\<close>

theorem extractAdditives_misses_E150d:
  "eNumberMatches ''water, sugar, E150d'' = [''E150d'']
   \<and> toUpperCase ''E150d'' = ''E150D''
   \<and> findByENumber additivesSeedData ''E150D'' = None
   \<and> findByENumber additivesSeedData ''E150d'' = Some caramelIV
   \<and> extractAdditives additivesSeedData (IngText ''water, sugar, E150d'') = Inr []
   \<and> extractAdditives additivesSeedData (IngText ''e322'') = Inr [lecithin]"
  using matches_E150d upper_E150d seed_has_no_E150D seed_has_E150d extract_E150d extract_e322
  by (intro conjI)

lemma scenario_sodium: "normalizeToPerPor100g 1200 (SizeText ''50g'') = Inr (Fin 2400)"
  by (simp del: gramMatch.simps
      add: normalizeToPerPor100g_def gramMatch_50g parseInt_50 js_div_def js_times_def)

lemma scenario_quality: "calculateNutritionalQuality scenarioFacts = Inr 90"
  by code_simp

lemma natural_flavor_not_listed: "''natural flavor'' \<notin> set commonAdditives"
  by (simp add: commonAdditives_def)

lemma scenario_impact:
  "calculateAdditivesImpact additivesSeedData scenarioFacts
   = Inr \<lparr>score = 70,
           additives = [toAdditiveInfo tartrazine, toAdditiveInfo monosodiumGlutamate]\<rparr>"
  using impact_value [of scenarioFacts additivesSeedData, OF _ scenario_extracted]
  by (simp add: scenarioFacts_def tartrazine_def monosodiumGlutamate_def)

lemma weighted_90_70: "weightedScore 90 70 0 = 75"
  by code_simp

lemma weighted_90_65: "weightedScore 90 65 0 = 74"
  by code_simp

text \<open>
  Claim C9, as the code computes the scenario. The normalised sodium is 2400 and the
  quality 90, as the claim says. The extractor returns E102 and E621 only: ``natural
  flavor'' is not among the names that the second loop searches for, so its row of the
  table is never looked up. The additives score is 70 and the final score 75, in the
  category good with the colour light green. With an additives score of 65 the final
  score would be 74.
\<close>

theorem scenario_as_computed:
  "normalizeToPerPor100g 1200 (SizeText ''50g'') = Inr (Fin 2400)
   \<and> calculateNutritionalQuality scenarioFacts = Inr 90
   \<and> extractAdditives additivesSeedData (ingredients scenarioFacts)
       = Inr [tartrazine, monosodiumGlutamate]
   \<and> ''natural flavor'' \<notin> set commonAdditives
   \<and> calculateAdditivesImpact additivesSeedData scenarioFacts
       = Inr \<lparr>score = 70,
               additives = [toAdditiveInfo tartrazine, toAdditiveInfo monosodiumGlutamate]\<rparr>
   \<and> calculateOrganicBonus scenarioFacts = 0
   \<and> weightedScore 90 70 0 = 75
   \<and> weightedScore 90 65 0 = 74
   \<and> calculateScore additivesSeedData scenarioFacts = Inr scenarioScoring
   \<and> finalScore scenarioScoring = 75
   \<and> category scenarioScoring = Good
   \<and> color scenarioScoring = ColorLightGreen"
  using scenario_sodium scenario_quality scenario_extracted natural_flavor_not_listed
    scenario_impact weighted_90_70 weighted_90_65 scenario_scoring
  by (simp add: calculateOrganicBonus_def scenarioScoring_def)


end
